theory Spec2Isabelle
  imports Complex_Main
begin

section \<open>The recipe handler: fetching a recipe template from a registry and deploying it\<close>

text \<open>
  The development embeds the Go package \<open>handlers\<close> (recipe handler): the method
  \<open>DeployRecipe\<close> and its two helpers \<open>getDigestFromManifest\<close> and
  \<open>getRecipeBytes\<close>. A Go function that returns \<open>(value, error)\<close> becomes a
  function returning a pair whose second component is \<open>go_error option\<close>; a run-time
  panic (index out of range, failed type assertion, nil dereference) is the separate
  outcome \<open>Panics\<close>, so that a fault is never confused with a returned error.
\<close>

subsection \<open>Outcomes: returned values, returned errors and run-time panics\<close>

datatype runtime_fault =
    IndexOutOfRange nat nat  \<comment> \<open>index out of range [i] with length n\<close>
  | InterfaceConversion      \<comment> \<open>single-value type assertion on a value of another dynamic type\<close>
  | NilPointerDereference    \<comment> \<open>invalid memory address or nil pointer dereference\<close>

datatype 'a exec = Returns 'a | Panics runtime_fault

text \<open>
  An error value is either made in this package by \<open>fmt.Errorf\<close> (no \<open>%w\<close> verb is
  used, so it is a plain message), or it is the value a collaborator handed back
  (registry client, JSON decoder, deployments client), which the code passes on as it is.
\<close>

datatype cause = Cause string

datatype go_error = ErrorString string | Upstream cause

fun Error :: "go_error \<Rightarrow> string" where
  "Error (ErrorString m) = m"
| "Error (Upstream (Cause m)) = m"

subsection \<open>Strings: \<open>strings.Split\<close>, indexing, \<open>strconv.FormatInt\<close>\<close>

text \<open>
  \<open>strings.Split(s, sep)\<close> for a one-byte separator: all the substrings between
  separators, \<open>[""]\<close> for the empty string; the result is never empty.
\<close>

fun Split :: "string \<Rightarrow> char \<Rightarrow> string list" where
  "Split [] sep = [[]]"
| "Split (x # xs) sep =
     (let rest = Split xs sep
      in if x = sep then [] # rest else (x # hd rest) # tl rest)"

text \<open>Go's index expression \<open>a[i]\<close> on a slice panics when \<open>i\<close> is out of range.\<close>

definition index :: "'a list \<Rightarrow> nat \<Rightarrow> 'a exec" where
  "index a i = (if i < length a then Returns (a ! i) else Panics (IndexOutOfRange i (length a)))"

text \<open>\<open>strconv.FormatInt(i, 10)\<close>: the decimal digits, with a leading minus sign.\<close>

definition digit_char :: "int \<Rightarrow> char" where
  "digit_char d = ''0123456789'' ! nat d"

function formatBits :: "int \<Rightarrow> string" where
  "formatBits u =
     (if u < 10 then [digit_char u] else formatBits (u div 10) @ [digit_char (u mod 10)])"
  by pat_completeness auto
termination
  by (relation "measure nat") auto

declare formatBits.simps [simp del]

definition FormatInt :: "int \<Rightarrow> string" where
  "FormatInt i = (if i < 0 then CHR ''-'' # formatBits (- i) else formatBits i)"

subsection \<open>Decoded JSON: the dynamic values of \<open>interface{}\<close>\<close>

text \<open>
  What \<open>json.Unmarshal\<close> stores into an \<open>interface{}\<close>: nil, bool, float64, string,
  \<open>[]interface{}\<close> and \<open>map[string]interface{}\<close>. A map is kept as an association
  list and read with \<open>map_of\<close>; reading a missing key (or a nil map) gives nil.
\<close>

datatype iface =
    INil
  | IBool bool
  | IFloat64 real
  | IString string
  | ISlice "iface list"
  | IMap "(string \<times> iface) list"

type_synonym go_map = "(string \<times> iface) list"

definition map_index :: "go_map \<Rightarrow> string \<Rightarrow> iface" where
  "map_index m k = (case map_of m k of None \<Rightarrow> INil | Some v \<Rightarrow> v)"

text \<open>The single-value assertion \<open>x.([]interface{})\<close> panics on any other dynamic type.\<close>

fun assert_slice :: "iface \<Rightarrow> iface list exec" where
  "assert_slice (ISlice xs) = Returns xs"
| "assert_slice _ = Panics InterfaceConversion"

text \<open>The comma-ok assertions \<open>v, ok := x.(T)\<close> never panic: zero value and \<open>false\<close>.\<close>

fun assert_map_ok :: "iface \<Rightarrow> go_map \<times> bool" where
  "assert_map_ok (IMap m) = (m, True)"
| "assert_map_ok _ = ([], False)"

fun assert_string_ok :: "iface \<Rightarrow> string \<times> bool" where
  "assert_string_ok (IString s) = (s, True)"
| "assert_string_ok _ = ('''', False)"

subsection \<open>Collaborators and the history of calls\<close>

datatype repository = Repository string

record descriptor =
  MediaType :: string
  Digest :: string
  Size :: int

datatype read_closer = ReadCloser nat

datatype deployment_mode = DeploymentModeIncremental | DeploymentModeComplete

record deployment_properties =
  Template :: go_map
  Mode :: deployment_mode

datatype deployment = Deployment deployment_properties

datatype deployments_client = DeploymentsClient string

datatype future = Future nat

record resource_reference =
  ID :: "string option"

record deployment_properties_extended =
  ProvisioningState :: string
  OutputResources :: "resource_reference list option"

record deployment_extended =
  Properties :: "deployment_properties_extended option"

definition ProvisioningStateSucceeded :: string where
  "ProvisioningStateSucceeded = ''Succeeded''"

text \<open>
  Every call that leaves the process is recorded. The history is the state the code
  threads through: a collaborator's answer may depend on everything done so far.
\<close>

datatype event =
    EvResolve repository string
  | EvBlobsResolve repository string
  | EvFetch repository descriptor
  | EvReadAll read_closer descriptor
  | EvClose read_closer
  | EvCreateOrUpdate deployments_client string string deployment
  | EvWaitForCompletionRef future
  | EvResult future

type_synonym history = "event list"

record collaborators =
  NewRepository :: "string \<Rightarrow> cause + repository"
  Resolve :: "repository \<Rightarrow> string \<Rightarrow> history \<Rightarrow> cause + descriptor"
  BlobsResolve :: "repository \<Rightarrow> string \<Rightarrow> history \<Rightarrow> cause + descriptor"
  Fetch :: "repository \<Rightarrow> descriptor \<Rightarrow> history \<Rightarrow> cause + read_closer"
  ReadAll :: "read_closer \<Rightarrow> descriptor \<Rightarrow> history \<Rightarrow> cause + string"
  Unmarshal :: "string \<Rightarrow> cause + go_map"
  UnixNano :: "history \<Rightarrow> int"
  CreateOrUpdate ::
    "deployments_client \<Rightarrow> string \<Rightarrow> string \<Rightarrow> deployment \<Rightarrow> history \<Rightarrow> cause + future"
  WaitForCompletionRef :: "future \<Rightarrow> history \<Rightarrow> cause option"
  Result :: "future \<Rightarrow> deployments_client \<Rightarrow> history \<Rightarrow> cause + deployment_extended"

fun is_submission :: "event \<Rightarrow> bool" where
  "is_submission (EvCreateOrUpdate _ _ _ _) = True"
| "is_submission _ = False"

subsection \<open>\<open>getDigestFromManifest\<close>\<close>

text \<open>
  Resolve the tag, fetch and read the manifest, decode it, and take
  \<open>manifest["layers"].([]interface{})[0].(map[string]interface{})\<close>: only the last
  assertion of that chain is in comma-ok form. The deferred \<open>rc.Close()\<close> runs on
  every exit after the fetch, a panic included.
\<close>

definition getDigestFromManifest ::
  "collaborators \<Rightarrow> repository \<Rightarrow> string \<Rightarrow> history \<Rightarrow> (string \<times> go_error option) exec \<times> history"
where
  "getDigestFromManifest c repo tag h0 =
    (let h1 = h0 @ [EvResolve repo tag] in
     case Resolve c repo tag h0 of
       Inl err \<Rightarrow> (Returns ('''', Some (Upstream err)), h1)
     | Inr descriptor \<Rightarrow>
        (let h2 = h1 @ [EvFetch repo descriptor] in
         case Fetch c repo descriptor h1 of
           Inl err \<Rightarrow> (Returns ('''', Some (Upstream err)), h2)
         | Inr rc \<Rightarrow>
            (let h3 = h2 @ [EvReadAll rc descriptor];
                 outcome =
                  (case ReadAll c rc descriptor h2 of
                     Inl err \<Rightarrow> Returns ('''', Some (Upstream err))
                   | Inr manifestBlob \<Rightarrow>
                      (case Unmarshal c manifestBlob of
                         Inl err \<Rightarrow> Returns ('''', Some (Upstream err))
                       | Inr manifest \<Rightarrow>
                          (case assert_slice (map_index manifest ''layers'') of
                             Panics f \<Rightarrow> Panics f
                           | Returns layers \<Rightarrow>
                              (case index layers 0 of
                                 Panics f \<Rightarrow> Panics f
                               | Returns first \<Rightarrow>
                                  (let (layer, ok) = assert_map_ok first in
                                   if \<not> ok then
                                     Returns ('''', Some (ErrorString
                                       ''failed to decode the layers from manifest''))
                                   else
                                     (let (layerDigest, ok) =
                                        assert_string_ok (map_index layer ''digest'') in
                                      if \<not> ok then
                                        Returns ('''', Some (ErrorString
                                          ''failed to decode the layers digest from manifest''))
                                      else Returns (layerDigest, None)))))))
             in (outcome, h3 @ [EvClose rc]))))"

subsection \<open>\<open>getRecipeBytes\<close>\<close>

definition getRecipeBytes ::
  "collaborators \<Rightarrow> repository \<Rightarrow> string \<Rightarrow> history \<Rightarrow> (string \<times> go_error option) \<times> history"
where
  "getRecipeBytes c repo layerDigest h0 =
    (let h1 = h0 @ [EvBlobsResolve repo layerDigest] in
     case BlobsResolve c repo layerDigest h0 of
       Inl err \<Rightarrow> (('''', Some (Upstream err)), h1)
     | Inr descriptor \<Rightarrow>
        (let h2 = h1 @ [EvFetch repo descriptor] in
         case Fetch c repo descriptor h1 of
           Inl err \<Rightarrow> (('''', Some (Upstream err)), h2)
         | Inr rc \<Rightarrow>
            (let h3 = h2 @ [EvReadAll rc descriptor];
                 outcome =
                  (case ReadAll c rc descriptor h2 of
                     Inl err \<Rightarrow> ('''', Some (Upstream err))
                   | Inr pulledBlob \<Rightarrow> (pulledBlob, None))
             in (outcome, h3 @ [EvClose rc]))))"

subsection \<open>\<open>DeployRecipe\<close>\<close>

text \<open>
  The receiver holds the ARM configuration given to \<open>NewRecipeHandler\<close>; its
  authorizer goes into the deployments client and takes no part in the control flow, so
  the client is identified by the subscription alone. The context argument is left
  out: a cancelled context shows as the error a collaborator returns.
\<close>

definition deplmtPrefix :: string where
  "deplmtPrefix = ''recipe''"

text \<open>
  The first statement of \<open>DeployRecipe\<close>:
  \<open>registryRepo, tag := strings.Split(templatePath, ":")[0], strings.Split(templatePath, ":")[1]\<close>.
\<close>

definition parseTemplatePath :: "string \<Rightarrow> (string \<times> string) exec" where
  "parseTemplatePath templatePath =
    (case index (Split templatePath CHR '':'') 0 of
       Panics f \<Rightarrow> Panics f
     | Returns registryRepo \<Rightarrow>
        (case index (Split templatePath CHR '':'') 1 of
           Panics f \<Rightarrow> Panics f
         | Returns tag \<Rightarrow> Returns (registryRepo, tag)))"

text \<open>Go's \<open>append\<close> on a possibly nil slice (\<open>None\<close> is the nil slice).\<close>

fun append_slice :: "'a list option \<Rightarrow> 'a \<Rightarrow> 'a list option" where
  "append_slice None x = Some [x]"
| "append_slice (Some xs) x = Some (xs @ [x])"

text \<open>
  The loop \<open>for _, id := range outputResources { result = append(result, *id.ID) }\<close>;
  \<open>*id.ID\<close> faults on a nil \<open>ID\<close>.
\<close>

fun collectIDs :: "string list option \<Rightarrow> resource_reference list \<Rightarrow> string list option exec" where
  "collectIDs result [] = Returns result"
| "collectIDs result (r # rest) =
     (case ID r of
        None \<Rightarrow> Panics NilPointerDereference
      | Some s \<Rightarrow> collectIDs (append_slice result s) rest)"

definition NewDeploymentsClient :: "string \<Rightarrow> deployments_client" where
  "NewDeploymentsClient subscriptionID = DeploymentsClient subscriptionID"

definition DeployRecipe ::
  "collaborators \<Rightarrow> string \<Rightarrow> string \<Rightarrow> string \<Rightarrow> history
     \<Rightarrow> (string list option \<times> go_error option) exec \<times> history"
where
  "DeployRecipe c templatePath subscriptionID resourceGroupName h0 =
    (case parseTemplatePath templatePath of
       Panics f \<Rightarrow> (Panics f, h0)
     | Returns (registryRepo, tag) \<Rightarrow>
        if templatePath = '''' then
          (Returns (None, Some (ErrorString ''templatePath cannot be empty'')), h0)
        else
         (case NewRepository c registryRepo of
            Inl err \<Rightarrow>
              (Returns (None, Some (ErrorString
                 (''failed to create client to registry '' @ Error (Upstream err)))), h0)
          | Inr repo \<Rightarrow>
             (case getDigestFromManifest c repo tag h0 of
                (Panics f, h1) \<Rightarrow> (Panics f, h1)
              | (Returns (digest, Some err), h1) \<Rightarrow>
                  (Returns (None, Some (ErrorString
                     (''failed to fetch recipe manifest from registry '' @ Error err))), h1)
              | (Returns (digest, None), h1) \<Rightarrow>
                 (case getRecipeBytes c repo digest h1 of
                    ((recipeBytes, Some err), h2) \<Rightarrow>
                      (Returns (None, Some (ErrorString
                         (''failed to fetch recipe template from registry '' @ Error err))), h2)
                  | ((recipeBytes, None), h2) \<Rightarrow>
                     (case Unmarshal c recipeBytes of
                        Inl err \<Rightarrow> (Returns (None, Some (Upstream err)), h2)
                      | Inr recipe \<Rightarrow>
                         (let dClient = NewDeploymentsClient subscriptionID;
                              deploymtName = deplmtPrefix @ FormatInt (UnixNano c h2);
                              request = Deployment
                                \<lparr>Template = recipe, Mode = DeploymentModeIncremental\<rparr>;
                              h3 = h2 @ [EvCreateOrUpdate dClient resourceGroupName
                                           deploymtName request]
                          in case CreateOrUpdate c dClient resourceGroupName deploymtName
                                    request h2 of
                               Inl err \<Rightarrow> (Returns (None, Some (Upstream err)), h3)
                             | Inr dplResp \<Rightarrow>
                                (let h4 = h3 @ [EvWaitForCompletionRef dplResp] in
                                 case WaitForCompletionRef c dplResp h3 of
                                   Some err \<Rightarrow> (Returns (None, Some (Upstream err)), h4)
                                 | None \<Rightarrow>
                                    (let h5 = h4 @ [EvResult dplResp] in
                                     case Result c dplResp dClient h4 of
                                       Inl err \<Rightarrow> (Returns (None, Some (Upstream err)), h5)
                                     | Inr resp \<Rightarrow>
                                        (case Properties resp of
                                           None \<Rightarrow> (Panics NilPointerDereference, h5)
                                         | Some props \<Rightarrow>
                                            if ProvisioningState props
                                                 \<noteq> ProvisioningStateSucceeded then
                                              (Returns (None, Some (ErrorString
                                                 (''failed to deploy recipe - '' @ deploymtName))),
                                               h5)
                                            else
                                             (case OutputResources props of
                                                None \<Rightarrow> (Panics NilPointerDereference, h5)
                                              | Some outputResources \<Rightarrow>
                                                 (case collectIDs None outputResources of
                                                    Panics f \<Rightarrow> (Panics f, h5)
                                                  | Returns result \<Rightarrow>
                                                      (Returns (result, None), h5))))))))))))"

text \<open>The elements of a Go slice: a nil slice has none.\<close>

fun elems :: "'a list option \<Rightarrow> 'a list" where
  "elems None = []"
| "elems (Some xs) = xs"

subsection \<open>A concrete registry and deployment backend\<close>

text \<open>
  Collaborators for the recipe \<open>myregistry.example/recipes/rabbitmq:v1\<close>: a manifest
  with one layer, a template blob, and a backend that reports success with two output
  resources. The variants below change one collaborator each; the concrete runs in the
  second part of the theory are made against them.
\<close>

definition scenarioManifest :: go_map where
  "scenarioManifest = [(''layers'', ISlice [IMap [(''digest'', IString ''sha256:abcd'')]])]"

definition scenarioTemplate :: go_map where
  "scenarioTemplate = [(''resources'', ISlice [])]"

definition bus1 :: string where
  "bus1 = ''/subscriptions/s1/resourceGroups/rg1/providers/Microsoft.ServiceBus/namespaces/bus1''"

definition bus2 :: string where
  "bus2 = ''/subscriptions/s1/resourceGroups/rg1/providers/Microsoft.ServiceBus/namespaces/bus2''"

definition scenarioOutputs :: "resource_reference list" where
  "scenarioOutputs = [\<lparr>ID = Some bus1\<rparr>, \<lparr>ID = Some bus2\<rparr>]"

definition succeededProperties :: deployment_properties_extended where
  "succeededProperties =
     \<lparr>ProvisioningState = ''Succeeded'', OutputResources = Some scenarioOutputs\<rparr>"

definition scenarioResult :: deployment_extended where
  "scenarioResult = \<lparr>Properties = Some succeededProperties\<rparr>"

definition failedResult :: deployment_extended where
  "failedResult =
     \<lparr>Properties = Some \<lparr>ProvisioningState = ''Failed'', OutputResources = None\<rparr>\<rparr>"

definition bareResult :: deployment_extended where
  "bareResult =
     \<lparr>Properties = Some \<lparr>ProvisioningState = ''Succeeded'', OutputResources = None\<rparr>\<rparr>"

definition scenario :: collaborators where
  "scenario =
     \<lparr>NewRepository = (\<lambda>reference. Inr (Repository reference)),
      Resolve = (\<lambda>repo tag h.
        Inr \<lparr>MediaType = ''manifest'', Digest = ''sha256:1111'', Size = 120\<rparr>),
      BlobsResolve = (\<lambda>repo d h. Inr \<lparr>MediaType = ''layer'', Digest = d, Size = 300\<rparr>),
      Fetch = (\<lambda>repo d h. Inr (ReadCloser (length h))),
      ReadAll = (\<lambda>rc d h.
        Inr (if MediaType d = ''manifest'' then ''manifest bytes'' else ''template bytes'')),
      Unmarshal = (\<lambda>b.
        if b = ''manifest bytes'' then Inr scenarioManifest
        else if b = ''template bytes'' then Inr scenarioTemplate
        else Inl (Cause ''unexpected end of JSON input'')),
      UnixNano = (\<lambda>h. 1667222400000000000),
      CreateOrUpdate = (\<lambda>dClient rg name request h. Inr (Future (length h))),
      WaitForCompletionRef = (\<lambda>f h. None),
      Result = (\<lambda>f dClient h. Inr scenarioResult)\<rparr>"

definition rejectReference :: collaborators where
  "rejectReference =
     scenario\<lparr>NewRepository := \<lambda>reference. Inl (Cause ''invalid reference'')\<rparr>"

definition unknownTag :: collaborators where
  "unknownTag = scenario\<lparr>Resolve := \<lambda>repo tag h. Inl (Cause ''v1: not found'')\<rparr>"

text \<open>
  A registry client that, as the real one does, rejects an empty repository when the
  client is made and an empty tag when it is resolved.
\<close>

definition strictRegistry :: collaborators where
  "strictRegistry =
     scenario\<lparr>NewRepository := \<lambda>reference.
                 if reference = [] then Inl (Cause ''invalid reference: missing repository'')
                 else Inr (Repository reference),
               Resolve := \<lambda>repo tag h.
                 if tag = [] then Inl (Cause ''invalid reference'')
                 else Inr \<lparr>MediaType = ''manifest'', Digest = ''sha256:1111'', Size = 120\<rparr>\<rparr>"

definition emptyLayers :: collaborators where
  "emptyLayers = scenario\<lparr>Unmarshal := \<lambda>b. Inr [(''layers'', ISlice [])]\<rparr>"

definition noLayers :: collaborators where
  "noLayers = scenario\<lparr>Unmarshal := \<lambda>b. Inr []\<rparr>"

definition numericDigest :: collaborators where
  "numericDigest =
     scenario\<lparr>Unmarshal := \<lambda>b.
       Inr [(''layers'', ISlice [IMap [(''mediaType'', IString ''layer''),
                                       (''digest'', IFloat64 7)]])]\<rparr>"

definition resetFetch :: collaborators where
  "resetFetch =
     scenario\<lparr>Fetch := \<lambda>repo d h.
       if MediaType d = ''manifest'' then Inr (ReadCloser (length h))
       else Inl (Cause ''read tcp: connection reset by peer'')\<rparr>"

definition brokenTemplate :: collaborators where
  "brokenTemplate =
     scenario\<lparr>Unmarshal := \<lambda>b.
       if b = ''manifest bytes'' then Inr scenarioManifest
       else Inl (Cause ''invalid character'')\<rparr>"

definition rejectSubmission :: collaborators where
  "rejectSubmission =
     scenario\<lparr>CreateOrUpdate :=
       \<lambda>dClient rg name request h. Inl (Cause ''AuthorizationFailed'')\<rparr>"

definition cancelledWait :: collaborators where
  "cancelledWait =
     scenario\<lparr>WaitForCompletionRef := \<lambda>f h. Some (Cause ''context canceled'')\<rparr>"

definition lostResult :: collaborators where
  "lostResult = scenario\<lparr>Result := \<lambda>f dClient h. Inl (Cause ''connection refused'')\<rparr>"

definition failedBackend :: collaborators where
  "failedBackend = scenario\<lparr>Result := \<lambda>f dClient h. Inr failedResult\<rparr>"

definition bareBackend :: collaborators where
  "bareBackend = scenario\<lparr>Result := \<lambda>f dClient h. Inr bareResult\<rparr>"

text \<open>The calls the scenario makes, stage by stage.\<close>

definition scenarioRepo :: repository where
  "scenarioRepo = Repository ''myregistry.example/recipes/rabbitmq''"

definition manifestDescriptor :: descriptor where
  "manifestDescriptor = \<lparr>MediaType = ''manifest'', Digest = ''sha256:1111'', Size = 120\<rparr>"

definition layerDescriptor :: descriptor where
  "layerDescriptor = \<lparr>MediaType = ''layer'', Digest = ''sha256:abcd'', Size = 300\<rparr>"

definition manifestCalls :: history where
  "manifestCalls =
     [EvResolve scenarioRepo ''v1'', EvFetch scenarioRepo manifestDescriptor,
      EvReadAll (ReadCloser 1) manifestDescriptor, EvClose (ReadCloser 1)]"

definition blobCalls :: history where
  "blobCalls =
     manifestCalls @
     [EvBlobsResolve scenarioRepo ''sha256:abcd'', EvFetch scenarioRepo layerDescriptor,
      EvReadAll (ReadCloser 5) layerDescriptor, EvClose (ReadCloser 5)]"

definition scenarioRequest :: deployment where
  "scenarioRequest =
     Deployment \<lparr>Template = scenarioTemplate, Mode = DeploymentModeIncremental\<rparr>"

definition submitCalls :: history where
  "submitCalls =
     blobCalls @
     [EvCreateOrUpdate (DeploymentsClient ''s1'') ''rg1'' ''recipe1667222400000000000''
        scenarioRequest]"

lemmas scenario_calls =
  scenarioRepo_def manifestDescriptor_def layerDescriptor_def manifestCalls_def blobCalls_def
  scenarioRequest_def submitCalls_def

lemmas scenario_defs =
  scenario_def scenarioManifest_def scenarioTemplate_def scenarioResult_def
  succeededProperties_def scenarioOutputs_def
  getDigestFromManifest_def getRecipeBytes_def parseTemplatePath_def index_def map_index_def
  Let_def ProvisioningStateSucceeded_def NewDeploymentsClient_def deplmtPrefix_def

section \<open>Properties\<close>

subsection \<open>Splitting the reference\<close>

lemma Split_not_Nil: "Split s sep \<noteq> []"
  by (induction s) (auto simp: Let_def)

lemma Split_no_sep: "sep \<notin> set s \<Longrightarrow> Split s sep = [s]"
  by (induction s) (auto simp: Let_def)

lemma hd_Split: "hd (Split s sep) = takeWhile (\<lambda>x. x \<noteq> sep) s"
  by (induction s) (auto simp: Let_def)

lemma tl_Split:
  "sep \<in> set s \<Longrightarrow> tl (Split s sep) = Split (tl (dropWhile (\<lambda>x. x \<noteq> sep) s)) sep"
  by (induction s) (auto simp: Let_def)

lemma Split_sep:
  "sep \<in> set s \<Longrightarrow>
     Split s sep = takeWhile (\<lambda>x. x \<noteq> sep) s # Split (tl (dropWhile (\<lambda>x. x \<noteq> sep) s)) sep"
  using Split_not_Nil [of s sep] hd_Split [of s sep] tl_Split [of sep s]
  by (cases "Split s sep") auto

lemma parseTemplatePath_no_colon:
  "CHR '':'' \<notin> set tp \<Longrightarrow> parseTemplatePath tp = Panics (IndexOutOfRange 1 1)"
  by (simp add: parseTemplatePath_def index_def Split_no_sep)

lemma parseTemplatePath_colon:
  assumes "CHR '':'' \<in> set tp"
  shows "parseTemplatePath tp =
     Returns (takeWhile (\<lambda>x. x \<noteq> CHR '':'') tp,
              takeWhile (\<lambda>x. x \<noteq> CHR '':'') (tl (dropWhile (\<lambda>x. x \<noteq> CHR '':'') tp)))"
proof -
  let ?rest = "tl (dropWhile (\<lambda>x. x \<noteq> CHR '':'') tp)"
  obtain y ys where r: "Split ?rest CHR '':'' = y # ys"
    using Split_not_Nil [of ?rest "CHR '':''"] by (cases "Split ?rest CHR '':''") auto
  have "y = takeWhile (\<lambda>x. x \<noteq> CHR '':'') ?rest"
    using hd_Split [of ?rest "CHR '':''"] r by simp
  then show ?thesis
    using Split_sep [OF assms] r by (simp add: parseTemplatePath_def index_def)
qed

lemma parseTemplatePath_one_colon:
  assumes "CHR '':'' \<notin> set r" and "CHR '':'' \<notin> set t"
  shows "parseTemplatePath (r @ CHR '':'' # t) = Returns (r, t)"
proof -
  have "takeWhile (\<lambda>x. x \<noteq> CHR '':'') (r @ CHR '':'' # t) = r"
    using assms(1) by (simp add: takeWhile_append)
  moreover have "dropWhile (\<lambda>x. x \<noteq> CHR '':'') (r @ CHR '':'' # t) = CHR '':'' # t"
    using assms(1) by (simp add: dropWhile_append)
  moreover have "takeWhile (\<lambda>x. x \<noteq> CHR '':'') t = t"
    using assms(2) by auto
  ultimately show ?thesis
    using parseTemplatePath_colon [of "r @ CHR '':'' # t"] by simp
qed

lemma parseTemplatePath_Returns_nonempty:
  "parseTemplatePath tp = Returns p \<Longrightarrow> tp \<noteq> []"
  by (auto simp: parseTemplatePath_def index_def)

lemma DeployRecipe_no_colon:
  "CHR '':'' \<notin> set templatePath \<Longrightarrow>
     DeployRecipe c templatePath subscriptionID resourceGroupName h =
       (Panics (IndexOutOfRange 1 1), h)"
  by (simp add: DeployRecipe_def parseTemplatePath_no_colon)

lemma DeployRecipe_client_rejects:
  assumes "CHR '':'' \<notin> set r" and "CHR '':'' \<notin> set t"
    and "NewRepository c r = Inl cause"
  shows "DeployRecipe c (r @ CHR '':'' # t) subscriptionID resourceGroupName h =
           (Returns (None, Some (ErrorString
              (''failed to create client to registry '' @ Error (Upstream cause)))), h)"
  using assms(3) parseTemplatePath_one_colon [OF assms(1,2)]
  by (simp add: DeployRecipe_def)

lemma DeployRecipe_resolve_rejects:
  assumes "CHR '':'' \<notin> set r" and "CHR '':'' \<notin> set t"
    and "NewRepository c r = Inr repo" and "Resolve c repo t h = Inl cause"
  shows "DeployRecipe c (r @ CHR '':'' # t) subscriptionID resourceGroupName h =
           (Returns (None, Some (ErrorString
              (''failed to fetch recipe manifest from registry '' @ Error (Upstream cause)))),
            h @ [EvResolve repo t])"
  using assms(3,4) parseTemplatePath_one_colon [OF assms(1,2)]
  by (simp add: DeployRecipe_def getDigestFromManifest_def)

text \<open>
  Claim C1, as the code has it. A non-empty reference without a colon does not get an
  invalid-reference error: it faults at the index \<open>[1]\<close> before any collaborator is
  called (the history is unchanged). A reference \<open>r:t\<close> with exactly one colon is split
  into \<open>(r, t)\<close>, and \<open>DeployRecipe\<close> has no emptiness check of its own on the two
  parts: \<open>r\<close> goes to the registry client constructor and \<open>t\<close> to the tag resolution.
  It is the registry client that rejects an empty part. When the constructor rejects
  \<open>r\<close>, the call returns a nil list and \<open>failed to create client to registry\<close> followed
  by the client's cause, with no call made; when the resolution rejects \<open>t\<close>, it
  returns a nil list and \<open>failed to fetch recipe manifest from registry\<close> followed by
  the client's cause, after that one resolution call and nothing else. (The empty
  reference is the subject of claim C9.)
\<close>

theorem reference_fault_split_and_registry_rejection:
  "(templatePath \<noteq> [] \<and> CHR '':'' \<notin> set templatePath \<longrightarrow>
      DeployRecipe c templatePath subscriptionID resourceGroupName h =
        (Panics (IndexOutOfRange 1 1), h))
   \<and> (CHR '':'' \<notin> set r \<and> CHR '':'' \<notin> set t \<longrightarrow>
        parseTemplatePath (r @ CHR '':'' # t) = Returns (r, t)
        \<and> (NewRepository c r = Inl cause \<longrightarrow>
             DeployRecipe c (r @ CHR '':'' # t) subscriptionID resourceGroupName h =
               (Returns (None, Some (ErrorString
                  (''failed to create client to registry '' @ Error (Upstream cause)))), h))
        \<and> (NewRepository c r = Inr repo \<and> Resolve c repo t h = Inl cause \<longrightarrow>
             DeployRecipe c (r @ CHR '':'' # t) subscriptionID resourceGroupName h =
               (Returns (None, Some (ErrorString
                  (''failed to fetch recipe manifest from registry ''
                     @ Error (Upstream cause)))),
                h @ [EvResolve repo t])))"
  by (auto simp: DeployRecipe_no_colon parseTemplatePath_one_colon DeployRecipe_client_rejects
        DeployRecipe_resolve_rejects)

theorem reference_fault_split_and_registry_rejection_witness:
  "DeployRecipe strictRegistry ''rabbitmq'' ''s1'' ''rg1'' [] = (Panics (IndexOutOfRange 1 1), [])
   \<and> parseTemplatePath (''myregistry.example/recipes/rabbitmq'' @ CHR '':'' # ''v1'') =
        Returns (''myregistry.example/recipes/rabbitmq'', ''v1'')
   \<and> DeployRecipe strictRegistry ([] @ CHR '':'' # ''v1'') ''s1'' ''rg1'' [] =
        (Returns (None, Some (ErrorString
           ''failed to create client to registry invalid reference: missing repository'')), [])
   \<and> DeployRecipe strictRegistry (''myregistry.example/recipes/rabbitmq'' @ CHR '':'' # [])
          ''s1'' ''rg1'' [] =
        (Returns (None, Some (ErrorString
           ''failed to fetch recipe manifest from registry invalid reference'')),
         [EvResolve scenarioRepo []])"
  using reference_fault_split_and_registry_rejection
          [where templatePath = "''rabbitmq''" and c = strictRegistry
             and subscriptionID = "''s1''" and resourceGroupName = "''rg1''" and h = "[]"
             and r = "''myregistry.example/recipes/rabbitmq''" and t = "''v1''"
             and cause = "Cause ''invalid reference''" and repo = scenarioRepo]
        reference_fault_split_and_registry_rejection
          [where templatePath = "''rabbitmq''" and c = strictRegistry
             and subscriptionID = "''s1''" and resourceGroupName = "''rg1''" and h = "[]"
             and r = "[]" and t = "''v1''"
             and cause = "Cause ''invalid reference: missing repository''"
             and repo = scenarioRepo]
        reference_fault_split_and_registry_rejection
          [where templatePath = "''rabbitmq''" and c = strictRegistry
             and subscriptionID = "''s1''" and resourceGroupName = "''rg1''" and h = "[]"
             and r = "''myregistry.example/recipes/rabbitmq''" and t = "[]"
             and cause = "Cause ''invalid reference''" and repo = scenarioRepo]
  by (simp add: strictRegistry_def scenarioRepo_def)

text \<open>
  Claim C1 as stated fails: a reference without a colon gives a run-time fault, not a
  returned error, whatever the collaborators are.
\<close>

theorem reference_without_colon_faults_counterexample:
  "DeployRecipe scenario ''myregistry.example/recipes/rabbitmq'' ''s1'' ''rg1'' [] =
     (Panics (IndexOutOfRange 1 1), [])"
  by (simp add: DeployRecipe_def parseTemplatePath_def index_def)

text \<open>
  Claim C5, as the code has it. For a reference with at least one colon the repository
  is the text before the first colon, and the tag is the text between the first colon
  and the second one (or the end of the string): \<open>strings.Split\<close> cuts at every colon
  and the code takes element 1, so whatever follows a second colon is dropped.
\<close>

theorem parseTemplatePath_tag_ends_at_second_colon:
  "(CHR '':'' \<in> set templatePath \<longrightarrow>
      parseTemplatePath templatePath =
        Returns (takeWhile (\<lambda>x. x \<noteq> CHR '':'') templatePath,
                 takeWhile (\<lambda>x. x \<noteq> CHR '':'')
                   (tl (dropWhile (\<lambda>x. x \<noteq> CHR '':'') templatePath))))
   \<and> (CHR '':'' \<notin> set r \<and> CHR '':'' \<notin> set t \<longrightarrow>
        parseTemplatePath (r @ CHR '':'' # t @ CHR '':'' # rest) = Returns (r, t))"
proof -
  have "parseTemplatePath (r @ CHR '':'' # t @ CHR '':'' # rest) = Returns (r, t)"
    if r: "CHR '':'' \<notin> set r" and t: "CHR '':'' \<notin> set t"
  proof -
    have "takeWhile (\<lambda>x. x \<noteq> CHR '':'') (r @ CHR '':'' # t @ CHR '':'' # rest) = r"
      using r by (simp add: takeWhile_append)
    moreover have "dropWhile (\<lambda>x. x \<noteq> CHR '':'') (r @ CHR '':'' # t @ CHR '':'' # rest) =
        CHR '':'' # t @ CHR '':'' # rest"
      using r by (simp add: dropWhile_append)
    moreover have "takeWhile (\<lambda>x. x \<noteq> CHR '':'') (t @ CHR '':'' # rest) = t"
      using t by (simp add: takeWhile_append)
    ultimately show ?thesis
      using parseTemplatePath_colon [of "r @ CHR '':'' # t @ CHR '':'' # rest"] by simp
  qed
  then show ?thesis
    using parseTemplatePath_colon by blast
qed

theorem parseTemplatePath_tag_ends_at_second_colon_witness:
  "CHR '':'' \<in> set ''a.io/r:v1:x''
   \<and> parseTemplatePath ''a.io/r:v1:x'' = Returns (''a.io/r'', ''v1'')
   \<and> parseTemplatePath (''localhost'' @ CHR '':'' # ''5000/r'' @ CHR '':'' # ''v1'') =
        Returns (''localhost'', ''5000/r'')"
  using parseTemplatePath_tag_ends_at_second_colon [of "''a.io/r:v1:x''" "''localhost''" "''5000/r''" "''v1''"]
  by simp

text \<open>
  Claim C5 as stated fails: with a registry port in the reference the tag is not the
  whole remainder after the first colon.
\<close>

theorem parseTemplatePath_remainder_counterexample:
  "parseTemplatePath ''localhost:5000/recipes/rabbitmq:v1'' =
      Returns (''localhost'', ''5000/recipes/rabbitmq'')
   \<and> parseTemplatePath ''localhost:5000/recipes/rabbitmq:v1'' \<noteq>
      Returns (''localhost'', ''5000/recipes/rabbitmq:v1'')"
  by (simp add: parseTemplatePath_def index_def)

text \<open>
  Claim C9. The guard that returns \<open>templatePath cannot be empty\<close> is unreachable:
  for every reference without a colon, the empty one included, the split has one
  element, the index \<open>[1]\<close> is out of range and \<open>DeployRecipe\<close> faults there with no
  call made; and no call of \<open>DeployRecipe\<close>, whatever the collaborators answer, returns
  that error value.
\<close>

theorem empty_templatePath_guard_unreachable:
  "(CHR '':'' \<notin> set templatePath \<longrightarrow>
      parseTemplatePath templatePath = Panics (IndexOutOfRange 1 1)
      \<and> DeployRecipe c templatePath subscriptionID resourceGroupName h =
          (Panics (IndexOutOfRange 1 1), h))
   \<and> fst (DeployRecipe c templatePath subscriptionID resourceGroupName h) \<noteq>
        Returns (result, Some (ErrorString ''templatePath cannot be empty''))"
proof -
  have "fst (DeployRecipe c templatePath subscriptionID resourceGroupName h) \<noteq>
        Returns (result, Some (ErrorString ''templatePath cannot be empty''))"
  proof (cases "parseTemplatePath templatePath")
    case (Panics f)
    then show ?thesis by (simp add: DeployRecipe_def)
  next
    case (Returns p)
    then have "templatePath \<noteq> []" by (rule parseTemplatePath_Returns_nonempty)
    with Returns show ?thesis
      by (auto simp: DeployRecipe_def Let_def
          split: prod.splits sum.splits exec.splits option.splits)
  qed
  then show ?thesis
    using DeployRecipe_no_colon parseTemplatePath_no_colon by blast
qed

theorem empty_templatePath_guard_unreachable_witness:
  "CHR '':'' \<notin> set [] \<and> parseTemplatePath [] = Panics (IndexOutOfRange 1 1)
   \<and> DeployRecipe scenario [] ''s1'' ''rg1'' [] = (Panics (IndexOutOfRange 1 1), [])
   \<and> fst (DeployRecipe scenario [] ''s1'' ''rg1'' []) \<noteq>
        Returns (None, Some (ErrorString ''templatePath cannot be empty''))"
  using empty_templatePath_guard_unreachable [of "[]" scenario "''s1''" "''rg1''" "[]" None]
  by simp

subsection \<open>Reading the layer digest from the manifest\<close>

text \<open>
  Whatever the registry is: once the manifest is fetched and decoded, an empty \<open>layers\<close>
  array faults at the index \<open>[0]\<close>, and a \<open>layers\<close> value that is not an array (nil
  for a missing key) faults at the assertion. The stream is closed all the same.
\<close>

lemma getDigestFromManifest_without_first_layer:
  assumes "Resolve c repo tag h0 = Inr descriptor"
    and "Fetch c repo descriptor (h0 @ [EvResolve repo tag]) = Inr rc"
    and "ReadAll c rc descriptor (h0 @ [EvResolve repo tag, EvFetch repo descriptor]) =
           Inr manifestBlob"
    and "Unmarshal c manifestBlob = Inr manifest"
  shows "map_index manifest ''layers'' = ISlice [] \<Longrightarrow>
           getDigestFromManifest c repo tag h0 =
             (Panics (IndexOutOfRange 0 0),
              h0 @ [EvResolve repo tag, EvFetch repo descriptor, EvReadAll rc descriptor,
                    EvClose rc])"
    and "map_index manifest ''layers'' = INil \<Longrightarrow>
           getDigestFromManifest c repo tag h0 =
             (Panics InterfaceConversion,
              h0 @ [EvResolve repo tag, EvFetch repo descriptor, EvReadAll rc descriptor,
                    EvClose rc])"
  using assms by (simp_all add: getDigestFromManifest_def Let_def index_def)

text \<open>
  Claim C2. For a manifest whose \<open>layers\<close> array is empty, or that has no \<open>layers\<close>
  key, the claim asks for a decode error and no run-time fault. The code does not do
  that: only the last assertion of the chain is guarded, so the empty array faults at
  \<open>[0]\<close> and the missing key faults at the assertion to \<open>[]interface{}\<close>; the fault
  goes through \<open>DeployRecipe\<close> unchanged.
\<close>

theorem getDigestFromManifest_layers_fault:
  "getDigestFromManifest emptyLayers scenarioRepo ''v1'' [] =
      (Panics (IndexOutOfRange 0 0), manifestCalls)
   \<and> getDigestFromManifest noLayers scenarioRepo ''v1'' [] =
      (Panics InterfaceConversion, manifestCalls)
   \<and> DeployRecipe emptyLayers ''myregistry.example/recipes/rabbitmq:v1'' ''s1'' ''rg1'' [] =
      (Panics (IndexOutOfRange 0 0), manifestCalls)"
  by (simp add: DeployRecipe_def emptyLayers_def noLayers_def scenario_defs scenario_calls)

text \<open>
  Claim C8. When the manifest is fetched and decoded, its \<open>layers\<close> value is an array
  whose first element is an object, and that object has no string under \<open>digest\<close>
  (the key is missing or holds another type), \<open>getDigestFromManifest\<close> returns the
  error \<open>failed to decode the layers digest from manifest\<close> made in this package: not
  a fault, and not an error of the registry client.
\<close>

theorem getDigestFromManifest_digest_not_string:
  assumes "Resolve c repo tag h0 = Inr descriptor"
    and "Fetch c repo descriptor (h0 @ [EvResolve repo tag]) = Inr rc"
    and "ReadAll c rc descriptor (h0 @ [EvResolve repo tag, EvFetch repo descriptor]) =
           Inr manifestBlob"
    and "Unmarshal c manifestBlob = Inr manifest"
    and "map_index manifest ''layers'' = ISlice (IMap layer # others)"
    and "\<forall>s. map_index layer ''digest'' \<noteq> IString s"
  shows "getDigestFromManifest c repo tag h0 =
           (Returns ([], Some (ErrorString
              ''failed to decode the layers digest from manifest'')),
            h0 @ [EvResolve repo tag, EvFetch repo descriptor, EvReadAll rc descriptor,
                  EvClose rc])"
proof -
  have "assert_string_ok (map_index layer ''digest'') = ([], False)"
    using assms(6) by (cases "map_index layer ''digest''") auto
  then show ?thesis
    using assms(1-5) by (simp add: getDigestFromManifest_def Let_def index_def)
qed

theorem getDigestFromManifest_digest_not_string_witness:
  "getDigestFromManifest numericDigest scenarioRepo ''v1'' [] =
     (Returns ([], Some (ErrorString ''failed to decode the layers digest from manifest'')),
      manifestCalls)"
  using getDigestFromManifest_digest_not_string
    [of numericDigest scenarioRepo "''v1''" "[]" manifestDescriptor "ReadCloser 1"
      "''manifest bytes''"
      "[(''layers'', ISlice [IMap [(''mediaType'', IString ''layer''), (''digest'', IFloat64 7)]])]"
      "[(''mediaType'', IString ''layer''), (''digest'', IFloat64 7)]" "[]"]
  by (simp add: numericDigest_def scenario_def map_index_def scenario_calls)

subsection \<open>The stages of the scenario\<close>

lemma FormatInt_scenario: "FormatInt 1667222400000000000 = ''1667222400000000000''"
  by code_simp

lemma scenario_parse:
  "parseTemplatePath ''myregistry.example/recipes/rabbitmq:v1'' =
     Returns (''myregistry.example/recipes/rabbitmq'', ''v1'')"
  by (simp add: parseTemplatePath_def index_def)

lemma scenario_repo:
  "NewRepository c = NewRepository scenario \<Longrightarrow>
     NewRepository c ''myregistry.example/recipes/rabbitmq'' = Inr scenarioRepo"
  by (simp add: scenario_def scenarioRepo_def)

lemma scenario_digest:
  assumes "Resolve c = Resolve scenario" "Fetch c = Fetch scenario"
    "ReadAll c = ReadAll scenario" "Unmarshal c = Unmarshal scenario"
  shows "getDigestFromManifest c scenarioRepo ''v1'' [] =
           (Returns (''sha256:abcd'', None), manifestCalls)"
  by (simp add: assms getDigestFromManifest_def scenario_def scenarioManifest_def index_def
        map_index_def scenario_calls)

lemma scenario_bytes:
  assumes "BlobsResolve c = BlobsResolve scenario" "Fetch c = Fetch scenario"
    "ReadAll c = ReadAll scenario"
  shows "getRecipeBytes c scenarioRepo ''sha256:abcd'' manifestCalls =
           ((''template bytes'', None), blobCalls)"
  by (simp add: assms getRecipeBytes_def scenario_def scenario_calls)

lemma scenario_decode:
  "Unmarshal c = Unmarshal scenario \<Longrightarrow> Unmarshal c ''template bytes'' = Inr scenarioTemplate"
  by (simp add: scenario_def)

lemma scenario_name:
  "UnixNano c = UnixNano scenario \<Longrightarrow>
     deplmtPrefix @ FormatInt (UnixNano c h) = ''recipe1667222400000000000''"
  by (simp add: scenario_def deplmtPrefix_def FormatInt_scenario)

lemma scenario_submit:
  "CreateOrUpdate c = CreateOrUpdate scenario \<Longrightarrow>
     CreateOrUpdate c dClient rg name request blobCalls = Inr (Future 8)"
  by (simp add: scenario_def scenario_calls)

lemma scenario_wait:
  "WaitForCompletionRef c = WaitForCompletionRef scenario \<Longrightarrow>
     WaitForCompletionRef c f h = None"
  by (simp add: scenario_def)

lemma resetFetch_digest:
  "getDigestFromManifest resetFetch scenarioRepo ''v1'' [] =
     (Returns (''sha256:abcd'', None), manifestCalls)"
  by (simp add: resetFetch_def getDigestFromManifest_def scenario_def scenarioManifest_def
        index_def map_index_def scenario_calls)

lemma resetFetch_bytes:
  "getRecipeBytes resetFetch scenarioRepo ''sha256:abcd'' manifestCalls =
     (([], Some (Upstream (Cause ''read tcp: connection reset by peer''))),
      manifestCalls @
        [EvBlobsResolve scenarioRepo ''sha256:abcd'', EvFetch scenarioRepo layerDescriptor])"
  by (simp add: resetFetch_def getRecipeBytes_def scenario_def scenario_calls)

subsection \<open>A failing blob fetch\<close>

lemma getDigestFromManifest_submissions:
  "filter is_submission (snd (getDigestFromManifest c repo tag h)) = filter is_submission h"
  by (simp add: getDigestFromManifest_def Let_def split: sum.splits)

lemma getRecipeBytes_submissions:
  "filter is_submission (snd (getRecipeBytes c repo d h)) = filter is_submission h"
  by (simp add: getRecipeBytes_def Let_def split: sum.splits)

lemma getRecipeBytes_error_Upstream:
  "getRecipeBytes c repo d h = ((bs, Some err), h') \<Longrightarrow> \<exists>e. err = Upstream e"
  by (auto simp: getRecipeBytes_def Let_def split: sum.splits)

text \<open>
  Claim C7. When the reference splits, the registry client is created, the manifest
  digest is resolved and \<open>getRecipeBytes\<close> then fails with the registry client's error
  (every error of \<open>getRecipeBytes\<close> is one, by \<open>getRecipeBytes_error_Upstream\<close>),
  \<open>DeployRecipe\<close> returns a nil list and the error
  \<open>failed to fetch recipe template from registry\<close> followed by the cause's message, and
  the history has no more \<open>CreateOrUpdate\<close> calls than it had at the start: the
  deployment backend is not invoked.
\<close>

theorem DeployRecipe_blob_fetch_fails_no_submission:
  assumes "parseTemplatePath templatePath = Returns (registryRepo, tag)"
    and "NewRepository c registryRepo = Inr repo"
    and "getDigestFromManifest c repo tag h0 = (Returns (digest, None), h1)"
    and "getRecipeBytes c repo digest h1 = ((recipeBytes, Some (Upstream transport)), h2)"
  shows "DeployRecipe c templatePath subscriptionID resourceGroupName h0 =
           (Returns (None, Some (ErrorString
              (''failed to fetch recipe template from registry '' @ Error (Upstream transport)))),
            h2)
         \<and> filter is_submission h2 = filter is_submission h0"
proof -
  have ne: "templatePath \<noteq> []"
    using assms(1) by (rule parseTemplatePath_Returns_nonempty)
  have "filter is_submission h1 = filter is_submission h0"
    using getDigestFromManifest_submissions [of c repo tag h0] assms(3) by simp
  moreover have "filter is_submission h2 = filter is_submission h1"
    using getRecipeBytes_submissions [of c repo digest h1] assms(4) by simp
  ultimately show ?thesis
    using assms ne by (simp add: DeployRecipe_def Let_def)
qed

theorem DeployRecipe_blob_fetch_fails_no_submission_witness:
  "DeployRecipe resetFetch ''myregistry.example/recipes/rabbitmq:v1'' ''s1'' ''rg1'' [] =
     (Returns (None, Some (ErrorString
        ''failed to fetch recipe template from registry read tcp: connection reset by peer'')),
      manifestCalls @
        [EvBlobsResolve scenarioRepo ''sha256:abcd'', EvFetch scenarioRepo layerDescriptor])
   \<and> filter is_submission
        (manifestCalls @
          [EvBlobsResolve scenarioRepo ''sha256:abcd'', EvFetch scenarioRepo layerDescriptor]) = []"
proof -
  have repo: "NewRepository resetFetch ''myregistry.example/recipes/rabbitmq'' = Inr scenarioRepo"
    by (rule scenario_repo) (simp add: resetFetch_def)
  show ?thesis
    using DeployRecipe_blob_fetch_fails_no_submission
            [OF scenario_parse repo resetFetch_digest resetFetch_bytes, of "''s1''" "''rg1''"]
    by simp
qed

subsection \<open>Which error each failing stage returns\<close>

text \<open>
  Claim C6, as the code has it. Once the reference is split, every failing stage ends
  the call with a nil list and an error that carries the cause, and no later stage runs
  (the history ends at the failing call). The three registry stages return a new error
  whose message is a stage prefix followed by the cause's message: creating the
  registry client, resolving the manifest digest, fetching the template blob. The four
  later stages return the collaborator's error value as it is, with no prefix: decoding
  the template, submitting the deployment, waiting for completion, retrieving the
  result.
\<close>

theorem DeployRecipe_error_of_each_stage:
  assumes "parseTemplatePath templatePath = Returns (registryRepo, tag)"
  shows
   "(NewRepository c registryRepo = Inl cause \<longrightarrow>
       DeployRecipe c templatePath subscriptionID resourceGroupName h0 =
         (Returns (None, Some (ErrorString
            (''failed to create client to registry '' @ Error (Upstream cause)))), h0))
    \<and> (NewRepository c registryRepo = Inr repo \<longrightarrow>
       (getDigestFromManifest c repo tag h0 = (Returns (d, Some err), h1) \<longrightarrow>
          DeployRecipe c templatePath subscriptionID resourceGroupName h0 =
            (Returns (None, Some (ErrorString
               (''failed to fetch recipe manifest from registry '' @ Error err))), h1))
       \<and> (getDigestFromManifest c repo tag h0 = (Returns (digest, None), h1) \<longrightarrow>
          (getRecipeBytes c repo digest h1 = ((bs, Some err), h2) \<longrightarrow>
             DeployRecipe c templatePath subscriptionID resourceGroupName h0 =
               (Returns (None, Some (ErrorString
                  (''failed to fetch recipe template from registry '' @ Error err))), h2))
          \<and> (getRecipeBytes c repo digest h1 = ((recipeBytes, None), h2) \<longrightarrow>
             (Unmarshal c recipeBytes = Inl cause \<longrightarrow>
                DeployRecipe c templatePath subscriptionID resourceGroupName h0 =
                  (Returns (None, Some (Upstream cause)), h2))
             \<and> (Unmarshal c recipeBytes = Inr recipe \<longrightarrow>
                (let dClient = NewDeploymentsClient subscriptionID;
                     deploymtName = deplmtPrefix @ FormatInt (UnixNano c h2);
                     request = Deployment
                       \<lparr>Template = recipe, Mode = DeploymentModeIncremental\<rparr>;
                     h3 = h2 @ [EvCreateOrUpdate dClient resourceGroupName deploymtName request]
                 in (CreateOrUpdate c dClient resourceGroupName deploymtName request h2
                       = Inl cause \<longrightarrow>
                      DeployRecipe c templatePath subscriptionID resourceGroupName h0 =
                        (Returns (None, Some (Upstream cause)), h3))
                  \<and> (CreateOrUpdate c dClient resourceGroupName deploymtName request h2
                       = Inr dplResp \<longrightarrow>
                      (WaitForCompletionRef c dplResp h3 = Some cause \<longrightarrow>
                         DeployRecipe c templatePath subscriptionID resourceGroupName h0 =
                           (Returns (None, Some (Upstream cause)),
                            h3 @ [EvWaitForCompletionRef dplResp]))
                      \<and> (WaitForCompletionRef c dplResp h3 = None \<longrightarrow>
                         Result c dplResp dClient (h3 @ [EvWaitForCompletionRef dplResp])
                           = Inl cause \<longrightarrow>
                         DeployRecipe c templatePath subscriptionID resourceGroupName h0 =
                           (Returns (None, Some (Upstream cause)),
                            h3 @ [EvWaitForCompletionRef dplResp, EvResult dplResp]))))))))"
proof -
  have ne: "templatePath \<noteq> []"
    using assms by (rule parseTemplatePath_Returns_nonempty)
  show ?thesis
    using assms ne by (simp add: DeployRecipe_def Let_def)
qed

theorem DeployRecipe_error_of_each_stage_witness:
  "DeployRecipe rejectReference ''myregistry.example/recipes/rabbitmq:v1'' ''s1'' ''rg1'' [] =
     (Returns (None, Some (ErrorString
        ''failed to create client to registry invalid reference'')), [])
   \<and> DeployRecipe unknownTag ''myregistry.example/recipes/rabbitmq:v1'' ''s1'' ''rg1'' [] =
     (Returns (None, Some (ErrorString
        ''failed to fetch recipe manifest from registry v1: not found'')),
      [EvResolve scenarioRepo ''v1''])
   \<and> DeployRecipe resetFetch ''myregistry.example/recipes/rabbitmq:v1'' ''s1'' ''rg1'' [] =
     (Returns (None, Some (ErrorString
        ''failed to fetch recipe template from registry read tcp: connection reset by peer'')),
      manifestCalls @
        [EvBlobsResolve scenarioRepo ''sha256:abcd'', EvFetch scenarioRepo layerDescriptor])
   \<and> DeployRecipe brokenTemplate ''myregistry.example/recipes/rabbitmq:v1'' ''s1'' ''rg1'' [] =
     (Returns (None, Some (Upstream (Cause ''invalid character''))), blobCalls)
   \<and> DeployRecipe rejectSubmission ''myregistry.example/recipes/rabbitmq:v1'' ''s1'' ''rg1'' [] =
     (Returns (None, Some (Upstream (Cause ''AuthorizationFailed''))), submitCalls)
   \<and> DeployRecipe cancelledWait ''myregistry.example/recipes/rabbitmq:v1'' ''s1'' ''rg1'' [] =
     (Returns (None, Some (Upstream (Cause ''context canceled''))),
      submitCalls @ [EvWaitForCompletionRef (Future 8)])
   \<and> DeployRecipe lostResult ''myregistry.example/recipes/rabbitmq:v1'' ''s1'' ''rg1'' [] =
     (Returns (None, Some (Upstream (Cause ''connection refused''))),
      submitCalls @ [EvWaitForCompletionRef (Future 8), EvResult (Future 8)])"
proof -
  note stages = DeployRecipe_error_of_each_stage [OF scenario_parse, unfolded Let_def]
  have b1: "DeployRecipe rejectReference ''myregistry.example/recipes/rabbitmq:v1'' ''s1'' ''rg1'' [] =
     (Returns (None, Some (ErrorString
        ''failed to create client to registry invalid reference'')), [])"
  proof -
    have fails: "NewRepository rejectReference ''myregistry.example/recipes/rabbitmq'' =
        Inl (Cause ''invalid reference'')"
      by (simp add: rejectReference_def)
    show ?thesis
      using stages [THEN conjunct1, THEN mp, OF fails, of "''s1''" "''rg1''" "[]"] by simp
  qed
  have b2: "DeployRecipe unknownTag ''myregistry.example/recipes/rabbitmq:v1'' ''s1'' ''rg1'' [] =
     (Returns (None, Some (ErrorString
        ''failed to fetch recipe manifest from registry v1: not found'')),
      [EvResolve scenarioRepo ''v1''])"
  proof -
    have repo: "NewRepository unknownTag ''myregistry.example/recipes/rabbitmq'' = Inr scenarioRepo"
      by (rule scenario_repo) (simp add: unknownTag_def)
    have fails: "getDigestFromManifest unknownTag scenarioRepo ''v1'' [] =
        (Returns ([], Some (Upstream (Cause ''v1: not found''))), [EvResolve scenarioRepo ''v1''])"
      by (simp add: unknownTag_def getDigestFromManifest_def)
    show ?thesis
      using stages [THEN conjunct2, THEN mp, OF repo, THEN conjunct1, THEN mp, OF fails,
                    of "''s1''" "''rg1''"]
      by simp
  qed
  have b3: "DeployRecipe resetFetch ''myregistry.example/recipes/rabbitmq:v1'' ''s1'' ''rg1'' [] =
     (Returns (None, Some (ErrorString
        ''failed to fetch recipe template from registry read tcp: connection reset by peer'')),
      manifestCalls @
        [EvBlobsResolve scenarioRepo ''sha256:abcd'', EvFetch scenarioRepo layerDescriptor])"
  proof -
    have repo: "NewRepository resetFetch ''myregistry.example/recipes/rabbitmq'' = Inr scenarioRepo"
      by (rule scenario_repo) (simp add: resetFetch_def)
    show ?thesis
      using stages [THEN conjunct2, THEN mp, OF repo, THEN conjunct2, THEN mp,
                    OF resetFetch_digest, THEN conjunct1, THEN mp, OF resetFetch_bytes,
                    of "''s1''" "''rg1''"]
      by simp
  qed
  have b4: "DeployRecipe brokenTemplate ''myregistry.example/recipes/rabbitmq:v1'' ''s1'' ''rg1'' [] =
     (Returns (None, Some (Upstream (Cause ''invalid character''))), blobCalls)"
  proof -
    have repo: "NewRepository brokenTemplate ''myregistry.example/recipes/rabbitmq'' = Inr scenarioRepo"
      by (rule scenario_repo) (simp add: brokenTemplate_def)
    have digest: "getDigestFromManifest brokenTemplate scenarioRepo ''v1'' [] =
        (Returns (''sha256:abcd'', None), manifestCalls)"
      by (simp add: brokenTemplate_def getDigestFromManifest_def scenario_def scenarioManifest_def
            index_def map_index_def scenario_calls)
    have bytes: "getRecipeBytes brokenTemplate scenarioRepo ''sha256:abcd'' manifestCalls =
        ((''template bytes'', None), blobCalls)"
      by (rule scenario_bytes) (simp_all add: brokenTemplate_def)
    have fails: "Unmarshal brokenTemplate ''template bytes'' = Inl (Cause ''invalid character'')"
      by (simp add: brokenTemplate_def)
    show ?thesis
      using stages [THEN conjunct2, THEN mp, OF repo, THEN conjunct2, THEN mp, OF digest,
                    THEN conjunct2, THEN mp, OF bytes, THEN conjunct1, THEN mp, OF fails,
                    of "''s1''" "''rg1''"]
      by simp
  qed
  have b5: "DeployRecipe rejectSubmission ''myregistry.example/recipes/rabbitmq:v1'' ''s1'' ''rg1'' [] =
     (Returns (None, Some (Upstream (Cause ''AuthorizationFailed''))), submitCalls)"
  proof -
    have repo: "NewRepository rejectSubmission ''myregistry.example/recipes/rabbitmq'' = Inr scenarioRepo"
      by (rule scenario_repo) (simp add: rejectSubmission_def)
    have digest: "getDigestFromManifest rejectSubmission scenarioRepo ''v1'' [] =
        (Returns (''sha256:abcd'', None), manifestCalls)"
      by (rule scenario_digest) (simp_all add: rejectSubmission_def)
    have bytes: "getRecipeBytes rejectSubmission scenarioRepo ''sha256:abcd'' manifestCalls =
        ((''template bytes'', None), blobCalls)"
      by (rule scenario_bytes) (simp_all add: rejectSubmission_def)
    have decode: "Unmarshal rejectSubmission ''template bytes'' = Inr scenarioTemplate"
      by (rule scenario_decode) (simp add: rejectSubmission_def)
    have name: "deplmtPrefix @ FormatInt (UnixNano rejectSubmission blobCalls) = ''recipe1667222400000000000''"
      by (rule scenario_name) (simp add: rejectSubmission_def)
    have fails: "CreateOrUpdate rejectSubmission dClient rg name request h =
        Inl (Cause ''AuthorizationFailed'')" for dClient rg name request h
      by (simp add: rejectSubmission_def)
    show ?thesis
      using stages [THEN conjunct2, THEN mp, OF repo, THEN conjunct2, THEN mp, OF digest,
                    THEN conjunct2, THEN mp, OF bytes, THEN conjunct2, THEN mp, OF decode,
                    THEN conjunct1, THEN mp, OF fails, of "''s1''" "''rg1''"] name
      by (simp add: NewDeploymentsClient_def submitCalls_def scenarioRequest_def)
  qed
  have b6: "DeployRecipe cancelledWait ''myregistry.example/recipes/rabbitmq:v1'' ''s1'' ''rg1'' [] =
     (Returns (None, Some (Upstream (Cause ''context canceled''))),
      submitCalls @ [EvWaitForCompletionRef (Future 8)])"
  proof -
    have repo: "NewRepository cancelledWait ''myregistry.example/recipes/rabbitmq'' = Inr scenarioRepo"
      by (rule scenario_repo) (simp add: cancelledWait_def)
    have digest: "getDigestFromManifest cancelledWait scenarioRepo ''v1'' [] =
        (Returns (''sha256:abcd'', None), manifestCalls)"
      by (rule scenario_digest) (simp_all add: cancelledWait_def)
    have bytes: "getRecipeBytes cancelledWait scenarioRepo ''sha256:abcd'' manifestCalls =
        ((''template bytes'', None), blobCalls)"
      by (rule scenario_bytes) (simp_all add: cancelledWait_def)
    have decode: "Unmarshal cancelledWait ''template bytes'' = Inr scenarioTemplate"
      by (rule scenario_decode) (simp add: cancelledWait_def)
    have name: "deplmtPrefix @ FormatInt (UnixNano cancelledWait blobCalls) = ''recipe1667222400000000000''"
      by (rule scenario_name) (simp add: cancelledWait_def)
    have submit: "CreateOrUpdate cancelledWait dClient rg name request blobCalls = Inr (Future 8)"
      for dClient rg name request
      by (rule scenario_submit) (simp add: cancelledWait_def)
    have fails: "WaitForCompletionRef cancelledWait f h = Some (Cause ''context canceled'')"
      for f h
      by (simp add: cancelledWait_def)
    show ?thesis
      using stages [THEN conjunct2, THEN mp, OF repo, THEN conjunct2, THEN mp, OF digest,
                    THEN conjunct2, THEN mp, OF bytes, THEN conjunct2, THEN mp, OF decode,
                    THEN conjunct2, THEN mp, OF submit, THEN conjunct1, THEN mp, OF fails,
                    of "''s1''" "''rg1''"] name
      by (simp add: NewDeploymentsClient_def submitCalls_def scenarioRequest_def)
  qed
  have b7: "DeployRecipe lostResult ''myregistry.example/recipes/rabbitmq:v1'' ''s1'' ''rg1'' [] =
     (Returns (None, Some (Upstream (Cause ''connection refused''))),
      submitCalls @ [EvWaitForCompletionRef (Future 8), EvResult (Future 8)])"
  proof -
    have repo: "NewRepository lostResult ''myregistry.example/recipes/rabbitmq'' = Inr scenarioRepo"
      by (rule scenario_repo) (simp add: lostResult_def)
    have digest: "getDigestFromManifest lostResult scenarioRepo ''v1'' [] =
        (Returns (''sha256:abcd'', None), manifestCalls)"
      by (rule scenario_digest) (simp_all add: lostResult_def)
    have bytes: "getRecipeBytes lostResult scenarioRepo ''sha256:abcd'' manifestCalls =
        ((''template bytes'', None), blobCalls)"
      by (rule scenario_bytes) (simp_all add: lostResult_def)
    have decode: "Unmarshal lostResult ''template bytes'' = Inr scenarioTemplate"
      by (rule scenario_decode) (simp add: lostResult_def)
    have name: "deplmtPrefix @ FormatInt (UnixNano lostResult blobCalls) = ''recipe1667222400000000000''"
      by (rule scenario_name) (simp add: lostResult_def)
    have submit: "CreateOrUpdate lostResult dClient rg name request blobCalls = Inr (Future 8)"
      for dClient rg name request
      by (rule scenario_submit) (simp add: lostResult_def)
    have wait: "WaitForCompletionRef lostResult f h = None" for f h
      by (rule scenario_wait) (simp add: lostResult_def)
    have fails: "Result lostResult f dClient h = Inl (Cause ''connection refused'')"
      for f dClient h
      by (simp add: lostResult_def)
    show ?thesis
      using stages [THEN conjunct2, THEN mp, OF repo, THEN conjunct2, THEN mp, OF digest,
                    THEN conjunct2, THEN mp, OF bytes, THEN conjunct2, THEN mp, OF decode,
                    THEN conjunct2, THEN mp, OF submit, THEN conjunct2, THEN mp, OF wait,
                    THEN mp, OF fails, of "''s1''" "''rg1''"] name
      by (simp add: NewDeploymentsClient_def submitCalls_def scenarioRequest_def)
  qed
  show ?thesis
    using b1 b2 b3 b4 b5 b6 b7 by blast
qed

text \<open>
  Claim C6 as stated fails: a rejected submission comes back as the deployments
  client's own error value, whose message has no stage prefix.
\<close>

theorem DeployRecipe_submission_error_unwrapped_counterexample:
  "DeployRecipe rejectSubmission ''myregistry.example/recipes/rabbitmq:v1'' ''s1'' ''rg1'' [] =
     (Returns (None, Some (Upstream (Cause ''AuthorizationFailed''))), submitCalls)
   \<and> Error (Upstream (Cause ''AuthorizationFailed'')) = ''AuthorizationFailed''"
  by (simp add: DeployRecipe_def rejectSubmission_def scenario_defs scenario_calls
        FormatInt_scenario)

subsection \<open>The terminal result\<close>

lemma collectIDs_all_present:
  "map ID outs = map Some ids \<Longrightarrow>
     collectIDs acc outs = Returns (if ids = [] then acc else Some (elems acc @ ids))"
proof (induction outs arbitrary: acc ids)
  case Nil
  then show ?case by simp
next
  case (Cons r outs)
  then obtain s ids' where ids: "ids = s # ids'" "ID r = Some s" "map ID outs = map Some ids'"
    by (cases ids) auto
  show ?case
    using Cons.IH [OF ids(3), of "append_slice acc s"] ids(1,2)
    by (cases acc) auto
qed

text \<open>
  Claim C3. In a run where every stage up to the retrieval of the result succeeds, the
  result has properties with provisioning state \<open>Succeeded\<close> and an output-resource
  sequence, and \<open>ids\<close> are the identifiers of its entries in order (each entry carries
  one), \<open>DeployRecipe\<close> returns a slice whose elements are exactly \<open>ids\<close>, in that
  order, and no error. (For an empty sequence the slice is the nil slice.)
\<close>

theorem DeployRecipe_succeeded_returns_output_ids:
  assumes "parseTemplatePath templatePath = Returns (registryRepo, tag)"
    and "NewRepository c registryRepo = Inr repo"
    and "getDigestFromManifest c repo tag h0 = (Returns (digest, None), h1)"
    and "getRecipeBytes c repo digest h1 = ((recipeBytes, None), h2)"
    and "Unmarshal c recipeBytes = Inr recipe"
    and "dClient = NewDeploymentsClient subscriptionID"
    and "deploymtName = deplmtPrefix @ FormatInt (UnixNano c h2)"
    and "request = Deployment \<lparr>Template = recipe, Mode = DeploymentModeIncremental\<rparr>"
    and "h3 = h2 @ [EvCreateOrUpdate dClient resourceGroupName deploymtName request]"
    and "CreateOrUpdate c dClient resourceGroupName deploymtName request h2 = Inr dplResp"
    and "WaitForCompletionRef c dplResp h3 = None"
    and "Result c dplResp dClient (h3 @ [EvWaitForCompletionRef dplResp]) = Inr resp"
    and "Properties resp = Some props"
    and "ProvisioningState props = ProvisioningStateSucceeded"
    and "OutputResources props = Some outputResources"
    and "map ID outputResources = map Some ids"
  shows "DeployRecipe c templatePath subscriptionID resourceGroupName h0 =
           (Returns (if ids = [] then None else Some ids, None),
            h3 @ [EvWaitForCompletionRef dplResp, EvResult dplResp])
         \<and> elems (if ids = [] then None else Some ids) = ids"
proof -
  have ne: "templatePath \<noteq> []"
    using assms(1) by (rule parseTemplatePath_Returns_nonempty)
  have ids: "collectIDs None outputResources = Returns (if ids = [] then None else Some ids)"
    using collectIDs_all_present [OF assms(16), of None] by simp
  show ?thesis
    using assms(1-15) ne ids by (simp add: DeployRecipe_def Let_def)
qed

theorem DeployRecipe_succeeded_returns_output_ids_witness:
  "DeployRecipe scenario ''myregistry.example/recipes/rabbitmq:v1'' ''s1'' ''rg1'' [] =
     (Returns (Some [bus1, bus2], None),
      submitCalls @ [EvWaitForCompletionRef (Future 8), EvResult (Future 8)])"
proof -
  have repo: "NewRepository scenario ''myregistry.example/recipes/rabbitmq'' = Inr scenarioRepo"
    by (rule scenario_repo) (simp add: scenario_def)
  have digest: "getDigestFromManifest scenario scenarioRepo ''v1'' [] =
      (Returns (''sha256:abcd'', None), manifestCalls)"
    by (rule scenario_digest) (simp_all add: scenario_def)
  have bytes: "getRecipeBytes scenario scenarioRepo ''sha256:abcd'' manifestCalls =
      ((''template bytes'', None), blobCalls)"
    by (rule scenario_bytes) (simp_all add: scenario_def)
  have decode: "Unmarshal scenario ''template bytes'' = Inr scenarioTemplate"
    by (rule scenario_decode) (simp add: scenario_def)
  have name: "deplmtPrefix @ FormatInt (UnixNano scenario blobCalls) = ''recipe1667222400000000000''"
    by (rule scenario_name) (simp add: scenario_def)
  have submit: "CreateOrUpdate scenario dClient rg name request blobCalls = Inr (Future 8)"
    for dClient rg name request
    by (rule scenario_submit) (simp add: scenario_def)
  have wait: "WaitForCompletionRef scenario f h = None" for f h
    by (rule scenario_wait) (simp add: scenario_def)
  have result: "Result scenario (Future 8) (DeploymentsClient ''s1'')
      (submitCalls @ [EvWaitForCompletionRef (Future 8)]) = Inr scenarioResult"
    by (simp add: scenario_def)
  have props: "Properties scenarioResult = Some succeededProperties"
    by (simp add: scenarioResult_def)
  show ?thesis
    using DeployRecipe_succeeded_returns_output_ids [OF scenario_parse repo digest bytes decode,
      of "DeploymentsClient ''s1''" "''s1''" "''recipe1667222400000000000''" scenarioRequest
         submitCalls "''rg1''" "Future 8" scenarioResult "succeededProperties" scenarioOutputs "[bus1, bus2]"]
      name submit wait result props
    by (simp add: NewDeploymentsClient_def scenarioRequest_def submitCalls_def
          ProvisioningStateSucceeded_def succeededProperties_def scenarioOutputs_def)
qed

text \<open>
  Claim C4. In a run where every stage up to the retrieval of the result succeeds and
  the result's provisioning state is not \<open>Succeeded\<close>, \<open>DeployRecipe\<close> returns the nil
  list and the error \<open>failed to deploy recipe - \<close> followed by the generated deployment
  name (\<open>recipe\<close> and the decimal nanosecond time stamp).
\<close>

theorem DeployRecipe_not_succeeded_names_deployment:
  assumes "parseTemplatePath templatePath = Returns (registryRepo, tag)"
    and "NewRepository c registryRepo = Inr repo"
    and "getDigestFromManifest c repo tag h0 = (Returns (digest, None), h1)"
    and "getRecipeBytes c repo digest h1 = ((recipeBytes, None), h2)"
    and "Unmarshal c recipeBytes = Inr recipe"
    and "dClient = NewDeploymentsClient subscriptionID"
    and "deploymtName = deplmtPrefix @ FormatInt (UnixNano c h2)"
    and "request = Deployment \<lparr>Template = recipe, Mode = DeploymentModeIncremental\<rparr>"
    and "h3 = h2 @ [EvCreateOrUpdate dClient resourceGroupName deploymtName request]"
    and "CreateOrUpdate c dClient resourceGroupName deploymtName request h2 = Inr dplResp"
    and "WaitForCompletionRef c dplResp h3 = None"
    and "Result c dplResp dClient (h3 @ [EvWaitForCompletionRef dplResp]) = Inr resp"
    and "Properties resp = Some props"
    and "ProvisioningState props \<noteq> ProvisioningStateSucceeded"
  shows "DeployRecipe c templatePath subscriptionID resourceGroupName h0 =
           (Returns (None, Some (ErrorString (''failed to deploy recipe - '' @ deploymtName))),
            h3 @ [EvWaitForCompletionRef dplResp, EvResult dplResp])"
proof -
  have ne: "templatePath \<noteq> []"
    using assms(1) by (rule parseTemplatePath_Returns_nonempty)
  show ?thesis
    using assms ne by (simp add: DeployRecipe_def Let_def)
qed

theorem DeployRecipe_not_succeeded_names_deployment_witness:
  "DeployRecipe failedBackend ''myregistry.example/recipes/rabbitmq:v1'' ''s1'' ''rg1'' [] =
     (Returns (None, Some (ErrorString ''failed to deploy recipe - recipe1667222400000000000'')),
      submitCalls @ [EvWaitForCompletionRef (Future 8), EvResult (Future 8)])"
proof -
  have repo: "NewRepository failedBackend ''myregistry.example/recipes/rabbitmq'' = Inr scenarioRepo"
    by (rule scenario_repo) (simp add: failedBackend_def)
  have digest: "getDigestFromManifest failedBackend scenarioRepo ''v1'' [] =
      (Returns (''sha256:abcd'', None), manifestCalls)"
    by (rule scenario_digest) (simp_all add: failedBackend_def)
  have bytes: "getRecipeBytes failedBackend scenarioRepo ''sha256:abcd'' manifestCalls =
      ((''template bytes'', None), blobCalls)"
    by (rule scenario_bytes) (simp_all add: failedBackend_def)
  have decode: "Unmarshal failedBackend ''template bytes'' = Inr scenarioTemplate"
    by (rule scenario_decode) (simp add: failedBackend_def)
  have name: "deplmtPrefix @ FormatInt (UnixNano failedBackend blobCalls) = ''recipe1667222400000000000''"
    by (rule scenario_name) (simp add: failedBackend_def)
  have submit: "CreateOrUpdate failedBackend dClient rg name request blobCalls = Inr (Future 8)"
    for dClient rg name request
    by (rule scenario_submit) (simp add: failedBackend_def)
  have wait: "WaitForCompletionRef failedBackend f h = None" for f h
    by (rule scenario_wait) (simp add: failedBackend_def)
  have result: "Result failedBackend (Future 8) (DeploymentsClient ''s1'')
      (submitCalls @ [EvWaitForCompletionRef (Future 8)]) = Inr failedResult"
    by (simp add: failedBackend_def)
  have props: "Properties failedResult = Some \<lparr>ProvisioningState = ''Failed'', OutputResources = None\<rparr>"
    by (simp add: failedResult_def)
  show ?thesis
    using DeployRecipe_not_succeeded_names_deployment [OF scenario_parse repo digest bytes decode,
      of "DeploymentsClient ''s1''" "''s1''" "''recipe1667222400000000000''" scenarioRequest
         submitCalls "''rg1''" "Future 8" failedResult "\<lparr>ProvisioningState = ''Failed'', OutputResources = None\<rparr>"]
      name submit wait result props
    by (simp add: NewDeploymentsClient_def scenarioRequest_def submitCalls_def
          ProvisioningStateSucceeded_def)
qed

text \<open>
  Claim C10. In a run where every stage up to the retrieval of the result succeeds, the
  provisioning state is \<open>Succeeded\<close> and the \<open>OutputResources\<close> pointer is nil,
  \<open>DeployRecipe\<close> returns neither a list nor an error: the unguarded dereference in
  the \<open>range\<close> clause faults.
\<close>

theorem DeployRecipe_nil_outputResources_faults:
  assumes "parseTemplatePath templatePath = Returns (registryRepo, tag)"
    and "NewRepository c registryRepo = Inr repo"
    and "getDigestFromManifest c repo tag h0 = (Returns (digest, None), h1)"
    and "getRecipeBytes c repo digest h1 = ((recipeBytes, None), h2)"
    and "Unmarshal c recipeBytes = Inr recipe"
    and "dClient = NewDeploymentsClient subscriptionID"
    and "deploymtName = deplmtPrefix @ FormatInt (UnixNano c h2)"
    and "request = Deployment \<lparr>Template = recipe, Mode = DeploymentModeIncremental\<rparr>"
    and "h3 = h2 @ [EvCreateOrUpdate dClient resourceGroupName deploymtName request]"
    and "CreateOrUpdate c dClient resourceGroupName deploymtName request h2 = Inr dplResp"
    and "WaitForCompletionRef c dplResp h3 = None"
    and "Result c dplResp dClient (h3 @ [EvWaitForCompletionRef dplResp]) = Inr resp"
    and "Properties resp = Some props"
    and "ProvisioningState props = ProvisioningStateSucceeded"
    and "OutputResources props = None"
  shows "DeployRecipe c templatePath subscriptionID resourceGroupName h0 =
           (Panics NilPointerDereference,
            h3 @ [EvWaitForCompletionRef dplResp, EvResult dplResp])"
proof -
  have ne: "templatePath \<noteq> []"
    using assms(1) by (rule parseTemplatePath_Returns_nonempty)
  show ?thesis
    using assms ne by (simp add: DeployRecipe_def Let_def)
qed

theorem DeployRecipe_nil_outputResources_faults_witness:
  "DeployRecipe bareBackend ''myregistry.example/recipes/rabbitmq:v1'' ''s1'' ''rg1'' [] =
     (Panics NilPointerDereference,
      submitCalls @ [EvWaitForCompletionRef (Future 8), EvResult (Future 8)])"
proof -
  have repo: "NewRepository bareBackend ''myregistry.example/recipes/rabbitmq'' = Inr scenarioRepo"
    by (rule scenario_repo) (simp add: bareBackend_def)
  have digest: "getDigestFromManifest bareBackend scenarioRepo ''v1'' [] =
      (Returns (''sha256:abcd'', None), manifestCalls)"
    by (rule scenario_digest) (simp_all add: bareBackend_def)
  have bytes: "getRecipeBytes bareBackend scenarioRepo ''sha256:abcd'' manifestCalls =
      ((''template bytes'', None), blobCalls)"
    by (rule scenario_bytes) (simp_all add: bareBackend_def)
  have decode: "Unmarshal bareBackend ''template bytes'' = Inr scenarioTemplate"
    by (rule scenario_decode) (simp add: bareBackend_def)
  have name: "deplmtPrefix @ FormatInt (UnixNano bareBackend blobCalls) = ''recipe1667222400000000000''"
    by (rule scenario_name) (simp add: bareBackend_def)
  have submit: "CreateOrUpdate bareBackend dClient rg name request blobCalls = Inr (Future 8)"
    for dClient rg name request
    by (rule scenario_submit) (simp add: bareBackend_def)
  have wait: "WaitForCompletionRef bareBackend f h = None" for f h
    by (rule scenario_wait) (simp add: bareBackend_def)
  have result: "Result bareBackend (Future 8) (DeploymentsClient ''s1'')
      (submitCalls @ [EvWaitForCompletionRef (Future 8)]) = Inr bareResult"
    by (simp add: bareBackend_def)
  have props: "Properties bareResult = Some \<lparr>ProvisioningState = ''Succeeded'', OutputResources = None\<rparr>"
    by (simp add: bareResult_def)
  show ?thesis
    using DeployRecipe_nil_outputResources_faults [OF scenario_parse repo digest bytes decode,
      of "DeploymentsClient ''s1''" "''s1''" "''recipe1667222400000000000''" scenarioRequest
         submitCalls "''rg1''" "Future 8" bareResult "\<lparr>ProvisioningState = ''Succeeded'', OutputResources = None\<rparr>"]
      name submit wait result props
    by (simp add: NewDeploymentsClient_def scenarioRequest_def submitCalls_def
          ProvisioningStateSucceeded_def)
qed

end
